theory Spec2Isabelle
  imports Complex_Main
begin

section \<open>Values, errors and text helpers\<close>

text \<open>
  A JavaScript number is a double: not-a-number, one of the two infinities, or a finite
  value, kept here as the rational it denotes (negative zero is not distinguished from
  zero). \<open>isInteger\<close> is \<open>Number.isInteger\<close>: finite and without fractional part.
\<close>

datatype number = NaN | PosInfinity | NegInfinity | Finite rat

fun isInteger :: "number \<Rightarrow> bool" where
  "isInteger (Finite q) = (of_int \<lfloor>q\<rfloor> = q)"
| "isInteger NaN = False"
| "isInteger PosInfinity = False"
| "isInteger NegInfinity = False"

text \<open>The scalar values a request body can hold, and that are bound as statement parameters.\<close>

datatype jsval = JNull | JBool bool | JNum number | JStr string

text \<open>The two errors of \<open>expressError\<close> that the modelled code throws, with their messages.\<close>

datatype error = BadRequestError string | NotFoundError string

text \<open>
  An object is the list of its own entries in enumeration order, the order in which
  \<open>Object.keys\<close> and \<open>Object.values\<close> both traverse it.
\<close>

type_synonym 'v object = "(string \<times> 'v) list"

definition Object_keys :: "'v object \<Rightarrow> string list" where
  "Object_keys obj = map fst obj"

definition Object_values :: "'v object \<Rightarrow> 'v list" where
  "Object_values obj = map snd obj"

text \<open>
  The text of a non-negative integer inside a template literal (\<open>`$${idx + 1}`\<close>):
  its decimal digits.
\<close>

fun decimal :: "nat \<Rightarrow> string" where
  "decimal n =
     (if n < 10 then [''0123456789'' ! n]
      else decimal (n div 10) @ [''0123456789'' ! (n mod 10)])"

declare decimal.simps [simp del]

text \<open>\<open>Array.prototype.join\<close> on an array of strings.\<close>

fun join :: "string \<Rightarrow> string list \<Rightarrow> string" where
  "join sep [] = []"
| "join sep [x] = x"
| "join sep (x # y # ys) = x @ sep @ join sep (y # ys)"

section \<open>helpers/sql: sqlForPartialUpdate\<close>

text \<open>
  The field-name map is an object literal, so reading \<open>jsToSql[colName]\<close> finds its own
  entries first and then the members it inherits from \<open>Object.prototype\<close>. The table
  below lists those members with the text each one has inside a template literal under
  Node: a built-in function reads as its native-code source text, and \<open>__proto__\<close>
  reads the prototype object.
\<close>

definition Object_prototype :: "string \<rightharpoonup> string" where
  "Object_prototype =
     [''constructor'' \<mapsto> ''function Object() { [native code] }'',
      ''__defineGetter__'' \<mapsto> ''function __defineGetter__() { [native code] }'',
      ''__defineSetter__'' \<mapsto> ''function __defineSetter__() { [native code] }'',
      ''hasOwnProperty'' \<mapsto> ''function hasOwnProperty() { [native code] }'',
      ''__lookupGetter__'' \<mapsto> ''function __lookupGetter__() { [native code] }'',
      ''__lookupSetter__'' \<mapsto> ''function __lookupSetter__() { [native code] }'',
      ''isPrototypeOf'' \<mapsto> ''function isPrototypeOf() { [native code] }'',
      ''propertyIsEnumerable'' \<mapsto> ''function propertyIsEnumerable() { [native code] }'',
      ''toString'' \<mapsto> ''function toString() { [native code] }'',
      ''valueOf'' \<mapsto> ''function valueOf() { [native code] }'',
      ''__proto__'' \<mapsto> ''[object Object]'',
      ''toLocaleString'' \<mapsto> ''function toLocaleString() { [native code] }'']"

text \<open>
  \<open>jsToSql[colName] || colName\<close>: the map's own entry when it is truthy, that is not
  the empty string; with no own entry, the inherited member of that name, which is always
  truthy; and the field name otherwise.
\<close>

definition column :: "(string \<rightharpoonup> string) \<Rightarrow> string \<Rightarrow> string" where
  "column jsToSql colName =
     (case jsToSql colName of
        None \<Rightarrow>
          (case Object_prototype colName of
             None \<Rightarrow> colName
           | Some member \<Rightarrow> member)
      | Some c \<Rightarrow> if c = [] then colName else c)"

text \<open>The array \<open>cols\<close>: one fragment per key, numbered from its index in \<open>keys\<close>.\<close>

definition cols :: "string list \<Rightarrow> (string \<rightharpoonup> string) \<Rightarrow> string list" where
  \<open>cols keys jsToSql =
     map (\<lambda>(idx, colName). ''"'' @ column jsToSql colName @ ''"=$'' @ decimal (idx + 1))
       (enumerate 0 keys)\<close>

text \<open>
  The result \<open>{ setCols, values }\<close> is the pair \<open>(setCols, values)\<close>; the thrown
  \<open>BadRequestError\<close> is the left injection.
\<close>

definition sqlForPartialUpdate ::
  "jsval object \<Rightarrow> (string \<rightharpoonup> string) \<Rightarrow> error + (string \<times> jsval list)" where
  "sqlForPartialUpdate dataToUpdate jsToSql =
     (let keys = Object_keys dataToUpdate in
      if length keys = 0 then Inl (BadRequestError ''No data'')
      else Inr (join '', '' (cols keys jsToSql), Object_values dataToUpdate))"

section \<open>models: the update operations\<close>

text \<open>
  The statement text of each update, with the SET clause and the placeholder of the row
  key spliced in where the template literal has them (line breaks and indentation as in
  the source).
\<close>

definition User_querySql :: "string \<Rightarrow> string \<Rightarrow> string" where
  \<open>User_querySql setCols usernameVarIdx =
     ''UPDATE users \<newline>'' @
     ''                      SET '' @
     setCols @
     '' \<newline>'' @
     ''                      WHERE username = '' @
     usernameVarIdx @
     '' \<newline>'' @
     ''                      RETURNING username,\<newline>'' @
     ''                                first_name AS "firstName",\<newline>'' @
     ''                                last_name AS "lastName",\<newline>'' @
     ''                                email,\<newline>'' @
     ''                                is_admin AS "isAdmin"''\<close>

definition Job_querySql :: "string \<Rightarrow> string \<Rightarrow> string" where
  \<open>Job_querySql setCols idVarIdx =
     ''UPDATE jobs \<newline>'' @
     ''                      SET '' @
     setCols @
     '' \<newline>'' @
     ''                      WHERE id = '' @
     idVarIdx @
     '' \<newline>'' @
     ''                      RETURNING id,\<newline>'' @
     ''                                title, \<newline>'' @
     ''                                salary, \<newline>'' @
     ''                                equity, \<newline>'' @
     ''                                company_handle AS "companyHandle"''\<close>

definition Company_querySql :: "string \<Rightarrow> string \<Rightarrow> string" where
  \<open>Company_querySql setCols handleVarIdx =
     ''UPDATE companies \<newline>'' @
     ''                      SET '' @
     setCols @
     '' \<newline>'' @
     ''                      WHERE handle = '' @
     handleVarIdx @
     '' \<newline>'' @
     ''                      RETURNING handle, \<newline>'' @
     ''                                name, \<newline>'' @
     ''                                description, \<newline>'' @
     ''                                num_employees AS "numEmployees", \<newline>'' @
     ''                                logo_url AS "logoUrl"''\<close>

text \<open>The field-name maps the three operations pass to \<open>sqlForPartialUpdate\<close>.\<close>

definition User_jsToSql :: "string \<rightharpoonup> string" where
  "User_jsToSql =
     [''firstName'' \<mapsto> ''first_name'', ''lastName'' \<mapsto> ''last_name'',
      ''isAdmin'' \<mapsto> ''is_admin'']"

definition Job_jsToSql :: "string \<rightharpoonup> string" where
  "Job_jsToSql = [''numEmployees'' \<mapsto> ''num_employees'', ''logoUrl'' \<mapsto> ''logo_url'']"

definition Company_jsToSql :: "string \<rightharpoonup> string" where
  "Company_jsToSql = [''numEmployees'' \<mapsto> ''num_employees'', ''logoUrl'' \<mapsto> ''logo_url'']"

text \<open>Truthiness of a scalar, as \<open>if (data.password)\<close> tests it.\<close>

fun truthy :: "jsval \<Rightarrow> bool" where
  "truthy JNull = False"
| "truthy (JBool b) = b"
| "truthy (JNum n) = (n \<noteq> NaN \<and> n \<noteq> Finite 0)"
| "truthy (JStr s) = (s \<noteq> [])"

text \<open>
  The first statement of \<open>User.update\<close>: a truthy \<open>password\<close> entry is overwritten in
  place by its hash. \<open>bcrypt_hash\<close> stands for \<open>bcrypt.hash\<close> at the configured
  work factor; a hash call that rejects is outside the model.
\<close>

definition hash_password :: "(jsval \<Rightarrow> jsval) \<Rightarrow> jsval object \<Rightarrow> jsval object" where
  "hash_password bcrypt_hash data =
     (case map_of data ''password'' of
        None \<Rightarrow> data
      | Some password \<Rightarrow>
          if truthy password
          then map (\<lambda>(k, v). if k = ''password'' then (k, bcrypt_hash password) else (k, v)) data
          else data)"

text \<open>
  What each update hands to \<open>db.query\<close>: the statement text and the value array
  \<open>[...values, key]\<close>. The row key is whatever value the caller passes (\<open>id'\<close> is
  the job's \<open>id\<close>).
\<close>

definition User_update_query ::
  "(jsval \<Rightarrow> jsval) \<Rightarrow> jsval \<Rightarrow> jsval object \<Rightarrow> error + (string \<times> jsval list)" where
  "User_update_query bcrypt_hash username data =
     (case sqlForPartialUpdate (hash_password bcrypt_hash data) User_jsToSql of
        Inl e \<Rightarrow> Inl e
      | Inr (setCols, values) \<Rightarrow>
          let usernameVarIdx = ''$'' @ decimal (length values + 1)
          in Inr (User_querySql setCols usernameVarIdx, values @ [username]))"

definition Job_update_query :: "jsval \<Rightarrow> jsval object \<Rightarrow> error + (string \<times> jsval list)" where
  "Job_update_query id' data =
     (case sqlForPartialUpdate data Job_jsToSql of
        Inl e \<Rightarrow> Inl e
      | Inr (setCols, values) \<Rightarrow>
          let idVarIdx = ''$'' @ decimal (length values + 1)
          in Inr (Job_querySql setCols idVarIdx, values @ [id']))"

definition Company_update_query :: "jsval \<Rightarrow> jsval object \<Rightarrow> error + (string \<times> jsval list)" where
  "Company_update_query handle data =
     (case sqlForPartialUpdate data Company_jsToSql of
        Inl e \<Rightarrow> Inl e
      | Inr (setCols, values) \<Rightarrow>
          let handleVarIdx = ''$'' @ decimal (length values + 1)
          in Inr (Company_querySql setCols handleVarIdx, values @ [handle]))"

text \<open>
  The operations themselves. \<open>db\<close> stands for \<open>db.query\<close>: it takes the statement
  text and the value array and returns the rows; a row is an object. The first row is
  returned, and \<open>NotFoundError\<close> is thrown when there is none. \<open>ToString\<close> stands
  for the engine's conversion of the row key to text inside the message's template
  literal.
\<close>

definition delete_property :: "string \<Rightarrow> 'v object \<Rightarrow> 'v object" where
  "delete_property k obj = filter (\<lambda>(k', v). k' \<noteq> k) obj"

definition User_update ::
  "(string \<Rightarrow> jsval list \<Rightarrow> jsval object list) \<Rightarrow> (jsval \<Rightarrow> jsval) \<Rightarrow> (jsval \<Rightarrow> string) \<Rightarrow>
   jsval \<Rightarrow> jsval object \<Rightarrow> error + jsval object" where
  "User_update db bcrypt_hash ToString username data =
     (case User_update_query bcrypt_hash username data of
        Inl e \<Rightarrow> Inl e
      | Inr (querySql, params) \<Rightarrow>
          (case db querySql params of
             [] \<Rightarrow> Inl (NotFoundError (''No user: '' @ ToString username))
           | user # _ \<Rightarrow> Inr (delete_property ''password'' user)))"

definition Job_update ::
  "(string \<Rightarrow> jsval list \<Rightarrow> jsval object list) \<Rightarrow> (jsval \<Rightarrow> string) \<Rightarrow> jsval \<Rightarrow>
   jsval object \<Rightarrow> error + jsval object" where
  "Job_update db ToString id' data =
     (case Job_update_query id' data of
        Inl e \<Rightarrow> Inl e
      | Inr (querySql, params) \<Rightarrow>
          (case db querySql params of
             [] \<Rightarrow>
               Inl (NotFoundError (''No job with ID '' @ [CHR 0x27] @ ToString id' @ [CHR 0x27]))
           | job # _ \<Rightarrow> Inr job))"

definition Company_update ::
  "(string \<Rightarrow> jsval list \<Rightarrow> jsval object list) \<Rightarrow> (jsval \<Rightarrow> string) \<Rightarrow> jsval \<Rightarrow>
   jsval object \<Rightarrow> error + jsval object" where
  "Company_update db ToString handle data =
     (case Company_update_query handle data of
        Inl e \<Rightarrow> Inl e
      | Inr (querySql, params) \<Rightarrow>
          (case db querySql params of
             [] \<Rightarrow> Inl (NotFoundError (''No company: '' @ ToString handle))
           | company # _ \<Rightarrow> Inr company))"

section \<open>models: the filters of findAll\<close>

text \<open>
  A filter object holds the raw texts of a query string; a key it does not hold reads
  as \<open>undefined\<close>. \<open>ToNumber\<close> stands for the engine's conversion of a text to a
  number (the unary plus of \<open>+data.minSalary\<close>); the definitions take it as an
  argument, so that every general statement below holds for whatever the conversion is.
\<close>

type_synonym filter = "string \<rightharpoonup> string"

text \<open>
  The two statements of each \<open>if\<close> body: push the value, then push the predicate text
  numbered with the new length of the value array.
\<close>

fun push_predicate ::
  "jsval \<Rightarrow> string \<Rightarrow> jsval list \<times> string list \<Rightarrow> jsval list \<times> string list" where
  "push_predicate v text (validValues, queryStringArr) =
     (validValues @ [v],
      queryStringArr @ [text @ decimal (length (validValues @ [v])) @ '' ''])"

definition Job_filters :: "(string \<Rightarrow> number) \<Rightarrow> filter \<Rightarrow> jsval list \<times> string list" where
  "Job_filters ToNumber data =
     (let s0 = ([], []);
          s1 = (case data ''title'' of
                  None \<Rightarrow> s0
                | Some title \<Rightarrow>
                    if title \<noteq> []
                    then push_predicate (JStr (''%'' @ title @ ''%'')) ''title ILIKE $'' s0
                    else s0);
          s2 = (case data ''minSalary'' of
                  None \<Rightarrow> s1
                | Some minSalary \<Rightarrow>
                    if minSalary \<noteq> [] \<and> isInteger (ToNumber minSalary)
                    then push_predicate (JNum (ToNumber minSalary)) ''salary >= $'' s1
                    else s1);
          s3 = (if data ''hasEquity'' = Some ''true''
                then push_predicate (JNum (Finite 0)) ''equity >= $'' s2
                else s2)
      in s3)"

definition Company_filters :: "(string \<Rightarrow> number) \<Rightarrow> filter \<Rightarrow> jsval list \<times> string list" where
  "Company_filters ToNumber data =
     (let s0 = ([], []);
          s1 = (case data ''name'' of
                  None \<Rightarrow> s0
                | Some name \<Rightarrow>
                    if name \<noteq> []
                    then push_predicate (JStr (''%'' @ name @ ''%'')) ''name ILIKE $'' s0
                    else s0);
          s2 = (case data ''minEmployees'' of
                  None \<Rightarrow> s1
                | Some minEmployees \<Rightarrow>
                    if minEmployees \<noteq> [] \<and> isInteger (ToNumber minEmployees)
                    then push_predicate (JNum (ToNumber minEmployees)) ''num_employees >= $'' s1
                    else s1);
          s3 = (case data ''maxEmployees'' of
                  None \<Rightarrow> s2
                | Some maxEmployees \<Rightarrow>
                    if maxEmployees \<noteq> [] \<and> isInteger (ToNumber maxEmployees)
                    then push_predicate (JNum (ToNumber maxEmployees)) ''num_employees <= $'' s2
                    else s2)
      in s3)"

text \<open>The tail of the statement: the WHERE clause when a value was pushed, and the order.\<close>

definition Job_queryString :: "jsval list \<times> string list \<Rightarrow> string" where
  "Job_queryString s =
     (case s of (validValues, queryStringArr) \<Rightarrow>
        if length validValues > 0
        then ''WHERE '' @ join ''AND '' queryStringArr @ '' ORDER BY title''
        else '' ORDER BY title'')"

definition Company_queryString :: "jsval list \<times> string list \<Rightarrow> string" where
  "Company_queryString s =
     (case s of (values, queryStringArr) \<Rightarrow>
        if length values > 0
        then ''WHERE '' @ join ''AND '' queryStringArr @ '' ORDER BY name''
        else '' ORDER BY name'')"

definition Job_baseQuery :: string where
  \<open>Job_baseQuery =
     ''SELECT id,\<newline>'' @
     ''                        title,\<newline>'' @
     ''                        salary,\<newline>'' @
     ''                        equity,\<newline>'' @
     ''                        company_handle AS "companyHandle"\<newline>'' @
     ''                      FROM jobs ''\<close>

definition Company_baseQuery :: string where
  \<open>Company_baseQuery =
     ''SELECT handle,\<newline>'' @
     ''                        name,\<newline>'' @
     ''                        description,\<newline>'' @
     ''                        num_employees AS "numEmployees",\<newline>'' @
     ''                        logo_url AS "logoUrl"\<newline>'' @
     ''                      FROM companies ''\<close>

text \<open>
  \<open>findAll\<close>: without an argument (\<open>None\<close>) the rows of the plain query are returned;
  with a filter object the composed query runs and \<open>NotFoundError\<close> is thrown when it
  returns no row. The message interpolates the object itself, which reads
  \<open>[object Object]\<close>.
\<close>

definition Job_findAll ::
  "(string \<Rightarrow> jsval list \<Rightarrow> 'row list) \<Rightarrow> (string \<Rightarrow> number) \<Rightarrow> filter option \<Rightarrow>
   error + 'row list" where
  "Job_findAll db ToNumber data =
     (case data of
        None \<Rightarrow> Inr (db (Job_baseQuery @ ''ORDER BY title'') [])
      | Some d \<Rightarrow>
          let s = Job_filters ToNumber d;
              results = db (Job_baseQuery @ Job_queryString s) (fst s)
          in if length results = 0
             then Inl (NotFoundError ''No jobs found matching [object Object]'')
             else Inr results)"

definition Company_findAll ::
  "(string \<Rightarrow> jsval list \<Rightarrow> 'row list) \<Rightarrow> (string \<Rightarrow> number) \<Rightarrow> filter option \<Rightarrow>
   error + 'row list" where
  "Company_findAll db ToNumber data =
     (case data of
        None \<Rightarrow> Inr (db (Company_baseQuery @ ''ORDER BY name'') [])
      | Some d \<Rightarrow>
          let s = Company_filters ToNumber d;
              results = db (Company_baseQuery @ Company_queryString s) (fst s)
          in if length results = 0
             then Inl (NotFoundError ''No companies found matching [object Object]'')
             else Inr results)"

text \<open>
  A conversion for concrete runs: a non-empty text of decimal digits reads as its value,
  any other text as \<open>NaN\<close>. It agrees with the engine on plain decimal integer
  literals of at most fifteen digits and on texts with a character that no numeric
  literal has, such as \<open>nope\<close>.
\<close>

definition digit_value :: "char \<Rightarrow> nat" where
  "digit_value c = length (takeWhile (\<lambda>d. d \<noteq> c) ''0123456789'')"

definition DecimalToNumber :: "string \<Rightarrow> number" where
  "DecimalToNumber s =
     (if s \<noteq> [] \<and> list_all (\<lambda>c. c \<in> set ''0123456789'') s
      then Finite (of_nat (foldl (\<lambda>n c. 10 * n + digit_value c) 0 s))
      else NaN)"

text \<open>
  The column as the specification words it, for comparison with \<open>column\<close>: the map's
  entry if the map has one, the field name otherwise.
\<close>

definition spec_column :: "(string \<rightharpoonup> string) \<Rightarrow> string \<Rightarrow> string" where
  "spec_column jsToSql colName = (case jsToSql colName of None \<Rightarrow> colName | Some c \<Rightarrow> c)"

section \<open>Auxiliary facts\<close>

lemma decimal_1: "decimal (Suc 0) = ''1''"
  by (simp add: decimal.simps)

lemma decimal_2: "decimal (Suc (Suc 0)) = ''2''"
  by (simp add: decimal.simps)

lemma decimal_3: "decimal (Suc (Suc (Suc 0))) = ''3''"
  by (simp add: decimal.simps)

lemmas decimal_123 = decimal_1 decimal_2 decimal_3

text \<open>
  The digits that \<open>decimal\<close> writes read back as the number: \<open>decimal\<close> is the
  positional notation, and distinct indices have distinct texts.
\<close>

lemma digit_value_nth: "n < 10 \<Longrightarrow> digit_value (''0123456789'' ! n) = n"
proof -
  assume "n < 10"
  then have "n \<in> {0, 1, 2, 3, 4, 5, 6, 7, 8, 9}" by auto
  then show ?thesis by (auto simp: digit_value_def)
qed

lemma digit_nth_mem: "n < 10 \<Longrightarrow> ''0123456789'' ! n \<in> set ''0123456789''"
  by (rule nth_mem) simp

lemma decimal_digits: "list_all (\<lambda>c. c \<in> set ''0123456789'') (decimal n)"
proof (induction n rule: decimal.induct)
  case (1 n)
  show ?case
  proof (cases "n < 10")
    case True
    then show ?thesis using digit_nth_mem [of n] by (subst decimal.simps) simp
  next
    case False
    then show ?thesis
      using 1 digit_nth_mem [of "n mod 10"] by (subst decimal.simps) simp
  qed
qed

lemma decimal_nonempty: "decimal n \<noteq> []"
  by (subst decimal.simps) simp

lemma decimal_value: "foldl (\<lambda>a c. 10 * a + digit_value c) 0 (decimal n) = n"
proof (induction n rule: decimal.induct)
  case (1 n)
  show ?case
  proof (cases "n < 10")
    case True
    then show ?thesis by (subst decimal.simps) (simp add: digit_value_nth)
  next
    case False
    then show ?thesis
      using 1 by (subst decimal.simps) (simp add: digit_value_nth)
  qed
qed

lemma DecimalToNumber_decimal: "DecimalToNumber (decimal n) = Finite (of_nat n)"
  using decimal_digits [of n] decimal_nonempty [of n] decimal_value [of n]
  by (simp add: DecimalToNumber_def)

lemma decimal_inj: "decimal m = decimal n \<Longrightarrow> m = n"
  by (metis decimal_value)

lemma length_cols: "length (cols keys jsToSql) = length keys"
  by (simp add: cols_def)

lemma nth_cols:
  \<open>i < length keys \<Longrightarrow>
     cols keys jsToSql ! i = ''"'' @ column jsToSql (keys ! i) @ ''"=$'' @ decimal (i + 1)\<close>
  by (simp add: cols_def nth_enumerate_eq)

lemma length_Object_values: "length (Object_values obj) = length obj"
  by (simp add: Object_values_def)

lemma sqlForPartialUpdate_nonempty:
  "dataToUpdate \<noteq> [] \<Longrightarrow>
     sqlForPartialUpdate dataToUpdate jsToSql =
       Inr (join '', '' (cols (Object_keys dataToUpdate) jsToSql), Object_values dataToUpdate)"
  by (simp add: sqlForPartialUpdate_def Object_keys_def)

lemma setCols_keys_only:
  "Object_keys other = Object_keys dataToUpdate \<Longrightarrow>
     map_sum id fst (sqlForPartialUpdate other jsToSql) =
     map_sum id fst (sqlForPartialUpdate dataToUpdate jsToSql)"
  by (simp add: sqlForPartialUpdate_def Let_def)

lemma length_hash_password: "length (hash_password h data) = length data"
  by (simp add: hash_password_def split: option.splits)

lemma keys_hash_password: "Object_keys (hash_password h data) = Object_keys data"
  by (auto simp: hash_password_def Object_keys_def split: option.splits)

lemma nth_hash_password:
  "i < length data \<Longrightarrow> fst (data ! i) \<noteq> ''password'' \<Longrightarrow>
     Object_values (hash_password h data) ! i = snd (data ! i)"
  by (auto simp: hash_password_def Object_values_def split: option.splits prod.splits)

lemma hash_password_nonempty: "data \<noteq> [] \<Longrightarrow> hash_password h data \<noteq> []"
  using length_hash_password [of h data] by (metis length_0_conv)

lemma User_update_query_nonempty:
  "data \<noteq> [] \<Longrightarrow>
     User_update_query bcrypt_hash username data =
       Inr (User_querySql
              (join '', '' (cols (Object_keys data) User_jsToSql))
              (''$'' @ decimal (length data + 1)),
            Object_values (hash_password bcrypt_hash data) @ [username])"
  using hash_password_nonempty [of data bcrypt_hash]
  by (simp add: User_update_query_def sqlForPartialUpdate_nonempty keys_hash_password
      length_Object_values length_hash_password)

lemma Job_update_query_nonempty:
  "data \<noteq> [] \<Longrightarrow>
     Job_update_query id' data =
       Inr (Job_querySql
              (join '', '' (cols (Object_keys data) Job_jsToSql))
              (''$'' @ decimal (length data + 1)),
            Object_values data @ [id'])"
  by (simp add: Job_update_query_def sqlForPartialUpdate_nonempty length_Object_values)

lemma Company_update_query_nonempty:
  "data \<noteq> [] \<Longrightarrow>
     Company_update_query handle data =
       Inr (Company_querySql
              (join '', '' (cols (Object_keys data) Company_jsToSql))
              (''$'' @ decimal (length data + 1)),
            Object_values data @ [handle])"
  by (simp add: Company_update_query_def sqlForPartialUpdate_nonempty length_Object_values)

lemma hash_password_distinct:
  assumes "distinct (Object_keys data)"
  shows "hash_password bcrypt_hash data =
           map (\<lambda>(k, v). if k = ''password'' \<and> truthy v then (k, bcrypt_hash v) else (k, v)) data"
proof (cases "map_of data ''password''")
  case None
  then have "\<forall>(k, v) \<in> set data. k \<noteq> ''password''"
    by (auto simp: map_of_eq_None_iff image_iff)
  then have "map (\<lambda>(k, v). if k = ''password'' \<and> truthy v then (k, bcrypt_hash v) else (k, v)) data =
      map (\<lambda>x. x) data"
    by (intro map_cong) auto
  with None show ?thesis by (simp add: hash_password_def)
next
  case (Some p)
  have only: "v = p" if "(''password'', v) \<in> set data" for v
    using that Some assms by (simp add: Object_keys_def)
  show ?thesis
  proof (cases "truthy p")
    case True
    have "map (\<lambda>(k, v). if k = ''password'' then (k, bcrypt_hash p) else (k, v)) data =
        map (\<lambda>(k, v). if k = ''password'' \<and> truthy v then (k, bcrypt_hash v) else (k, v)) data"
      using only True by (intro map_cong) auto
    with Some True show ?thesis by (simp add: hash_password_def)
  next
    case False
    have "map (\<lambda>(k, v). if k = ''password'' \<and> truthy v then (k, bcrypt_hash v) else (k, v)) data =
        map (\<lambda>x. x) data"
      using only False by (intro map_cong) auto
    with Some False show ?thesis by (simp add: hash_password_def)
  qed
qed

lemma values_hash_password:
  "distinct (Object_keys data) \<Longrightarrow>
     Object_values (hash_password bcrypt_hash data) =
       map (\<lambda>(k, v). if k = ''password'' \<and> truthy v then bcrypt_hash v else v) data"
  by (simp add: hash_password_distinct Object_values_def split_def)

lemma column_eq_spec_column:
  "Object_prototype colName = None \<Longrightarrow> jsToSql colName \<noteq> Some [] \<Longrightarrow>
     column jsToSql colName = spec_column jsToSql colName"
  by (auto simp: column_def spec_column_def split: option.splits)

lemma column_repository_maps:
  assumes "Object_prototype colName = None"
  shows "column User_jsToSql colName = spec_column User_jsToSql colName"
    and "column Job_jsToSql colName = spec_column Job_jsToSql colName"
    and "column Company_jsToSql colName = spec_column Company_jsToSql colName"
  using assms
  by (auto intro!: column_eq_spec_column
      simp: User_jsToSql_def Job_jsToSql_def Company_jsToSql_def split: if_splits)

lemma push_predicate_eq:
  "push_predicate v text s =
     (fst s @ [v], snd s @ [text @ decimal (length (fst s) + 1) @ '' ''])"
  by (cases s) simp

lemma Job_filters_minSalary_skip:
  "data ''minSalary'' = Some v \<Longrightarrow> \<not> isInteger (ToNumber v) \<Longrightarrow>
     Job_filters ToNumber data = Job_filters ToNumber (data(''minSalary'' := None))"
  by (simp add: Job_filters_def)

lemma Company_filters_minEmployees_skip:
  "data ''minEmployees'' = Some v \<Longrightarrow> \<not> isInteger (ToNumber v) \<Longrightarrow>
     Company_filters ToNumber data = Company_filters ToNumber (data(''minEmployees'' := None))"
  by (simp add: Company_filters_def)

lemma Company_filters_maxEmployees_skip:
  "data ''maxEmployees'' = Some v \<Longrightarrow> \<not> isInteger (ToNumber v) \<Longrightarrow>
     Company_filters ToNumber data = Company_filters ToNumber (data(''maxEmployees'' := None))"
  by (simp add: Company_filters_def)

lemma Job_filters_hasEquity:
  "data ''hasEquity'' = Some ''true'' \<Longrightarrow>
     Job_filters ToNumber data =
       (fst (Job_filters ToNumber (data(''hasEquity'' := None))) @ [JNum (Finite 0)],
        snd (Job_filters ToNumber (data(''hasEquity'' := None))) @
          [''equity >= $'' @
           decimal (length (fst (Job_filters ToNumber (data(''hasEquity'' := None)))) + 1) @
           '' ''])"
  by (simp add: Job_filters_def Let_def push_predicate_eq)

lemma Job_filters_no_hasEquity:
  "data ''hasEquity'' \<noteq> Some ''true'' \<Longrightarrow>
     Job_filters ToNumber data = Job_filters ToNumber (data(''hasEquity'' := None))"
  by (simp add: Job_filters_def)

lemma subseqs_3:
  "set (subseqs [a, b, c]) = {[a, b, c], [a, b], [a, c], [a], [b, c], [b], [c], []}"
  by (simp add: Let_def)

lemma numbered_simps:
  "(\<lambda>ts. map (\<lambda>(i, t). t @ decimal (i + 1) @ '' '') (enumerate 0 ts)) `
     set (subseqs [a, b, c]) =
   {[a @ ''1 '', b @ ''2 '', c @ ''3 ''], [a @ ''1 '', b @ ''2 ''], [a @ ''1 '', c @ ''2 ''],
    [a @ ''1 ''], [b @ ''1 '', c @ ''2 ''], [b @ ''1 ''], [c @ ''1 ''], []}"
  unfolding subseqs_3 by (simp add: enumerate_eq_zip upt_rec decimal_123)

lemma Job_filters_numbered:
  "snd (Job_filters ToNumber data) \<in>
     (\<lambda>ts. map (\<lambda>(i, t). t @ decimal (i + 1) @ '' '') (enumerate 0 ts)) `
       set (subseqs [''title ILIKE $'', ''salary >= $'', ''equity >= $''])"
  unfolding numbered_simps
  by (simp add: Job_filters_def Let_def decimal_123 split: option.splits)

lemma Company_filters_numbered:
  "snd (Company_filters ToNumber data) \<in>
     (\<lambda>ts. map (\<lambda>(i, t). t @ decimal (i + 1) @ '' '') (enumerate 0 ts)) `
       set (subseqs [''name ILIKE $'', ''num_employees >= $'', ''num_employees <= $''])"
  unfolding numbered_simps
  by (simp add: Company_filters_def Let_def decimal_123 split: option.splits)

lemma Job_filters_lengths:
  "length (fst (Job_filters ToNumber data)) = length (snd (Job_filters ToNumber data))"
  by (simp add: Job_filters_def Let_def split: option.splits)

lemma Company_filters_lengths:
  "length (fst (Company_filters ToNumber data)) = length (snd (Company_filters ToNumber data))"
  by (simp add: Company_filters_def Let_def split: option.splits)

section \<open>The partial-update composer\<close>

text \<open>
  C1. For a non-empty update record, \<open>sqlForPartialUpdate\<close> returns the clause joined
  from exactly one fragment per field and the value array with exactly one entry per
  field; the fragment at position \<open>i\<close> names the column of the field at position \<open>i\<close>
  and carries the placeholder \<open>$(i + 1)\<close>, and the value at position \<open>i\<close> is that
  field's value. The record is any list of entries, so this holds for every order of
  the fields.
\<close>

theorem sqlForPartialUpdate_positional:
  assumes "dataToUpdate \<noteq> []"
  shows \<open>sqlForPartialUpdate dataToUpdate jsToSql =
           Inr (join '', '' (cols (Object_keys dataToUpdate) jsToSql),
                Object_values dataToUpdate) \<and>
         length (cols (Object_keys dataToUpdate) jsToSql) = length dataToUpdate \<and>
         length (Object_values dataToUpdate) = length dataToUpdate \<and>
         (\<forall>i < length dataToUpdate.
            cols (Object_keys dataToUpdate) jsToSql ! i =
              ''"'' @ column jsToSql (fst (dataToUpdate ! i)) @ ''"=$'' @ decimal (i + 1) \<and>
            Object_values dataToUpdate ! i = snd (dataToUpdate ! i))\<close>
  using assms
  by (simp add: sqlForPartialUpdate_nonempty length_cols nth_cols Object_keys_def
      Object_values_def)

theorem sqlForPartialUpdate_positional_witness:
  \<open>[(''email'', JStr ''a@b.c''), (''firstName'', JNull)] \<noteq> [] \<and>
   sqlForPartialUpdate [(''email'', JStr ''a@b.c''), (''firstName'', JNull)]
       [''firstName'' \<mapsto> ''first_name''] =
     Inr (''"email"=$1, "first_name"=$2'', [JStr ''a@b.c'', JNull]) \<and>
   cols [''email'', ''firstName''] [''firstName'' \<mapsto> ''first_name''] ! 1 = ''"first_name"=$2'' \<and>
   Object_values [(''email'', JStr ''a@b.c''), (''firstName'', JNull)] ! 1 = JNull\<close>
  using sqlForPartialUpdate_positional
    [of "[(''email'', JStr ''a@b.c''), (''firstName'', JNull)]"
        "[''firstName'' \<mapsto> ''first_name'']"]
  by (simp add: Object_keys_def Object_values_def cols_def column_def Object_prototype_def enumerate_eq_zip
      decimal.simps upt_rec)

text \<open>
  C2. An update record with no entries is rejected with \<open>BadRequestError\<close>, whatever
  the field-name map holds; the check is the first branch, so no clause and no value
  array is produced for it.
\<close>

theorem sqlForPartialUpdate_empty:
  "sqlForPartialUpdate [] jsToSql = Inl (BadRequestError ''No data'') \<and>
   (\<forall>setCols values. sqlForPartialUpdate [] jsToSql \<noteq> Inr (setCols, values))"
  by (simp add: sqlForPartialUpdate_def Object_keys_def)

text \<open>
  C4. The claim has the column fall back to the field name whenever the map has no entry
  for the field, as the comment in the source and its test of an unmapped field do. The
  code misses one case: \<open>jsToSql[colName]\<close> also finds the members that the map
  inherits, so for a field named like one of them the column is that member's text. With
  the map of \<open>User.update\<close>, which has no entry for \<open>constructor\<close>, the record
  \<open>{constructor: "x"}\<close> gives the fragment
  \<open>"function Object() { [native code] }"=$1\<close> and not \<open>"constructor"=$1\<close>. On the
  claim's own example the code gives what the claim says.
\<close>

theorem sqlForPartialUpdate_inherited_member:
  \<open>User_jsToSql ''constructor'' = None \<and>
   spec_column User_jsToSql ''constructor'' = ''constructor'' \<and>
   sqlForPartialUpdate [(''constructor'', JStr ''x'')] User_jsToSql =
     Inr (''"function Object() { [native code] }"=$1'', [JStr ''x'']) \<and>
   ''"function Object() { [native code] }"=$1'' \<noteq>
     ''"'' @ spec_column User_jsToSql ''constructor'' @ ''"=$1'' \<and>
   sqlForPartialUpdate
       [(''firstName'', JStr ''Bob''), (''email'', JStr ''new@email.com'')]
       [''firstName'' \<mapsto> ''first_name''] =
     Inr (''"first_name"=$1, "email"=$2'', [JStr ''Bob'', JStr ''new@email.com''])\<close>
  by (simp add: sqlForPartialUpdate_def Object_keys_def Object_values_def cols_def column_def
      Object_prototype_def spec_column_def User_jsToSql_def enumerate_eq_zip decimal.simps
      upt_rec)

text \<open>
  C9. The value array is the record's values as they are, position by position: a
  \<open>null\<close> stays \<open>null\<close> at its field's position, and a value of any scalar type is
  passed on unchanged.
\<close>

theorem sqlForPartialUpdate_values_unchanged:
  assumes "dataToUpdate \<noteq> []"
  shows "\<exists>setCols values.
           sqlForPartialUpdate dataToUpdate jsToSql = Inr (setCols, values) \<and>
           values = map snd dataToUpdate \<and>
           (\<forall>i < length dataToUpdate.
              snd (dataToUpdate ! i) = JNull \<longrightarrow> values ! i = JNull)"
  using assms by (simp add: sqlForPartialUpdate_nonempty Object_values_def)

theorem sqlForPartialUpdate_values_unchanged_witness:
  "[(''title'', JStr ''new''), (''salary'', JNull), (''equity'', JNum (Finite (1/100))),
    (''remote'', JBool False)] \<noteq> [] \<and>
   (\<exists>setCols.
      sqlForPartialUpdate
        [(''title'', JStr ''new''), (''salary'', JNull), (''equity'', JNum (Finite (1/100))),
         (''remote'', JBool False)] Map.empty =
      Inr (setCols, [JStr ''new'', JNull, JNum (Finite (1/100)), JBool False]))"
  using sqlForPartialUpdate_values_unchanged
    [of "[(''title'', JStr ''new''), (''salary'', JNull), (''equity'', JNum (Finite (1/100))),
          (''remote'', JBool False)]" Map.empty]
  by simp

section \<open>The update operations\<close>

text \<open>
  C8. For a non-empty update record of length \<open>N\<close>, each of \<open>User.update\<close>,
  \<open>Job.update\<close> and \<open>Company.update\<close> calls \<open>db.query\<close> with a statement whose
  WHERE clause compares the key column with the placeholder \<open>$(N + 1)\<close>, and with the
  \<open>N\<close> values of \<open>sqlForPartialUpdate\<close> in order followed by the row key as the last
  element. For jobs and companies these are the record's values. In \<open>User.update\<close> the
  record is first changed in place: they are the record's values with a truthy password
  replaced by its hash.
\<close>

theorem update_row_key_last:
  assumes "data \<noteq> []"
  shows
    \<open>User_update db bcrypt_hash ToString username data =
       (case db (''UPDATE users \<newline>'' @
                 ''                      SET '' @
                 join '', '' (cols (Object_keys data) User_jsToSql) @
                 '' \<newline>'' @
                 ''                      WHERE username = '' @
                 ''$'' @ decimal (length data + 1) @
                 '' \<newline>'' @
                 ''                      RETURNING username,\<newline>'' @
                 ''                                first_name AS "firstName",\<newline>'' @
                 ''                                last_name AS "lastName",\<newline>'' @
                 ''                                email,\<newline>'' @
                 ''                                is_admin AS "isAdmin"'')
                (Object_values (hash_password bcrypt_hash data) @ [username]) of
          [] \<Rightarrow> Inl (NotFoundError (''No user: '' @ ToString username))
        | user # _ \<Rightarrow> Inr (delete_property ''password'' user)) \<and>
     length (Object_values (hash_password bcrypt_hash data)) = length data \<and>
     (distinct (Object_keys data) \<longrightarrow>
        Object_values (hash_password bcrypt_hash data) =
          map (\<lambda>(k, v). if k = ''password'' \<and> truthy v then bcrypt_hash v else v) data) \<and>
     Job_update db ToString id' data =
       (case db (''UPDATE jobs \<newline>'' @
                 ''                      SET '' @
                 join '', '' (cols (Object_keys data) Job_jsToSql) @
                 '' \<newline>'' @
                 ''                      WHERE id = '' @
                 ''$'' @ decimal (length data + 1) @
                 '' \<newline>'' @
                 ''                      RETURNING id,\<newline>'' @
                 ''                                title, \<newline>'' @
                 ''                                salary, \<newline>'' @
                 ''                                equity, \<newline>'' @
                 ''                                company_handle AS "companyHandle"'')
                (Object_values data @ [id']) of
          [] \<Rightarrow>
            Inl (NotFoundError (''No job with ID '' @ [CHR 0x27] @ ToString id' @ [CHR 0x27]))
        | job # _ \<Rightarrow> Inr job) \<and>
     Company_update db ToString handle data =
       (case db (''UPDATE companies \<newline>'' @
                 ''                      SET '' @
                 join '', '' (cols (Object_keys data) Company_jsToSql) @
                 '' \<newline>'' @
                 ''                      WHERE handle = '' @
                 ''$'' @ decimal (length data + 1) @
                 '' \<newline>'' @
                 ''                      RETURNING handle, \<newline>'' @
                 ''                                name, \<newline>'' @
                 ''                                description, \<newline>'' @
                 ''                                num_employees AS "numEmployees", \<newline>'' @
                 ''                                logo_url AS "logoUrl"'')
                (Object_values data @ [handle]) of
          [] \<Rightarrow> Inl (NotFoundError (''No company: '' @ ToString handle))
        | company # _ \<Rightarrow> Inr company) \<and>
     length (Object_values data) = length data \<and>
     Object_values data = map snd data\<close>
proof -
  have u: "User_update db bcrypt_hash ToString username data =
       (case db (User_querySql (join '', '' (cols (Object_keys data) User_jsToSql))
                   (''$'' @ decimal (length data + 1)))
                (Object_values (hash_password bcrypt_hash data) @ [username]) of
          [] \<Rightarrow> Inl (NotFoundError (''No user: '' @ ToString username))
        | user # _ \<Rightarrow> Inr (delete_property ''password'' user))"
    using assms by (simp add: User_update_def User_update_query_nonempty)
  have j: "Job_update db ToString id' data =
       (case db (Job_querySql (join '', '' (cols (Object_keys data) Job_jsToSql))
                   (''$'' @ decimal (length data + 1)))
                (Object_values data @ [id']) of
          [] \<Rightarrow>
            Inl (NotFoundError (''No job with ID '' @ [CHR 0x27] @ ToString id' @ [CHR 0x27]))
        | job # _ \<Rightarrow> Inr job)"
    using assms by (simp add: Job_update_def Job_update_query_nonempty)
  have c: "Company_update db ToString handle data =
       (case db (Company_querySql (join '', '' (cols (Object_keys data) Company_jsToSql))
                   (''$'' @ decimal (length data + 1)))
                (Object_values data @ [handle]) of
          [] \<Rightarrow> Inl (NotFoundError (''No company: '' @ ToString handle))
        | company # _ \<Rightarrow> Inr company)"
    using assms by (simp add: Company_update_def Company_update_query_nonempty)
  have p: "distinct (Object_keys data) \<longrightarrow>
        Object_values (hash_password bcrypt_hash data) =
          map (\<lambda>(k, v). if k = ''password'' \<and> truthy v then bcrypt_hash v else v) data"
    by (simp add: values_hash_password)
  have l: "length (Object_values (hash_password bcrypt_hash data)) = length data"
    by (simp add: length_Object_values length_hash_password)
  have v: "Object_values data = map snd data"
    by (simp add: Object_values_def)
  show ?thesis
    unfolding u j c User_querySql_def Job_querySql_def Company_querySql_def
    using p l v by (simp add: length_Object_values)
qed

theorem update_row_key_last_witness:
  \<open>[(''firstName'', JStr ''Al''), (''password'', JStr ''pw'')] \<noteq> [] \<and>
   distinct (Object_keys [(''firstName'', JStr ''Al''), (''password'', JStr ''pw'')]) \<and>
   Object_values (hash_password (\<lambda>p. JStr ''HASH'') [(''firstName'', JStr ''Al''), (''password'', JStr ''pw'')]) = [JStr ''Al'', JStr ''HASH''] \<and>
   User_update
       (\<lambda>q vs. if vs = [JStr ''Al'', JStr ''HASH'', JStr ''u1''] \<and>
                   q =
            ''UPDATE users \<newline>'' @
            ''                      SET "first_name"=$1, "password"=$2 \<newline>'' @
            ''                      WHERE username = $3 \<newline>'' @
            ''                      RETURNING username,\<newline>'' @
            ''                                first_name AS "firstName",\<newline>'' @
            ''                                last_name AS "lastName",\<newline>'' @
            ''                                email,\<newline>'' @
            ''                                is_admin AS "isAdmin"''
                then [[(''username'', JStr ''u1'')]] else [])
       (\<lambda>p. JStr ''HASH'') (\<lambda>k. case k of JStr s \<Rightarrow> s | _ \<Rightarrow> []) (JStr ''u1'')
       [(''firstName'', JStr ''Al''), (''password'', JStr ''pw'')] =
     Inr [(''username'', JStr ''u1'')] \<and>
   Job_update
       (\<lambda>q vs. if vs = [JStr ''Al'', JStr ''pw'', JNum (Finite 7)] \<and>
                   q =
            ''UPDATE jobs \<newline>'' @
            ''                      SET "firstName"=$1, "password"=$2 \<newline>'' @
            ''                      WHERE id = $3 \<newline>'' @
            ''                      RETURNING id,\<newline>'' @
            ''                                title, \<newline>'' @
            ''                                salary, \<newline>'' @
            ''                                equity, \<newline>'' @
            ''                                company_handle AS "companyHandle"''
                then [[(''id'', JNum (Finite 7))]] else [])
       (\<lambda>k. case k of JStr s \<Rightarrow> s | _ \<Rightarrow> []) (JNum (Finite 7)) [(''firstName'', JStr ''Al''), (''password'', JStr ''pw'')] =
     Inr [(''id'', JNum (Finite 7))] \<and>
   Company_update
       (\<lambda>q vs. if vs = [JStr ''Al'', JStr ''pw'', JStr ''c1''] \<and>
                   q =
            ''UPDATE companies \<newline>'' @
            ''                      SET "firstName"=$1, "password"=$2 \<newline>'' @
            ''                      WHERE handle = $3 \<newline>'' @
            ''                      RETURNING handle, \<newline>'' @
            ''                                name, \<newline>'' @
            ''                                description, \<newline>'' @
            ''                                num_employees AS "numEmployees", \<newline>'' @
            ''                                logo_url AS "logoUrl"''
                then [[(''handle'', JStr ''c1'')]] else [])
       (\<lambda>k. case k of JStr s \<Rightarrow> s | _ \<Rightarrow> []) (JStr ''c1'') [(''firstName'', JStr ''Al''), (''password'', JStr ''pw'')] =
     Inr [(''handle'', JStr ''c1'')]\<close>
proof -
  have k: \<open>cols (Object_keys [(''firstName'', JStr ''Al''), (''password'', JStr ''pw'')])
        User_jsToSql = [''"first_name"=$1'', ''"password"=$2'']\<close>
    \<open>cols (Object_keys [(''firstName'', JStr ''Al''), (''password'', JStr ''pw'')])
        Job_jsToSql = [''"firstName"=$1'', ''"password"=$2'']\<close>
    \<open>cols (Object_keys [(''firstName'', JStr ''Al''), (''password'', JStr ''pw'')])
        Company_jsToSql = [''"firstName"=$1'', ''"password"=$2'']\<close>
    by (simp_all add: Object_keys_def cols_def column_def Object_prototype_def enumerate_eq_zip
        decimal.simps upt_rec User_jsToSql_def Job_jsToSql_def Company_jsToSql_def)
  have h: "Object_values (hash_password (\<lambda>p. JStr ''HASH'') [(''firstName'', JStr ''Al''), (''password'', JStr ''pw'')]) =
      [JStr ''Al'', JStr ''HASH'']"
    "Object_values [(''firstName'', JStr ''Al''), (''password'', JStr ''pw'')] =
      [JStr ''Al'', JStr ''pw'']"
    by (simp_all add: Object_values_def hash_password_def)
  have g: "distinct (Object_keys [(''firstName'', JStr ''Al''), (''password'', JStr ''pw'')])"
    by (simp add: Object_keys_def)
  note t = update_row_key_last
    [where data = "[(''firstName'', JStr ''Al''), (''password'', JStr ''pw'')]"
       and bcrypt_hash = "\<lambda>p. JStr ''HASH''" and ToString = "(\<lambda>k. case k of JStr s \<Rightarrow> s | _ \<Rightarrow> [])"
       and username = "JStr ''u1''" and id' = "JNum (Finite 7)" and handle = "JStr ''c1''",
     unfolded k h, simplified]
  show ?thesis
    using g by (simp add: t h decimal_123 delete_property_def)
qed

section \<open>The filters of findAll\<close>

text \<open>
  C5. With \<open>+"1"\<close> being the number 1, the filter \<open>{title: "job1", minSalary: "1"}\<close>
  gives the two predicates in their declared order, joined by \<open>AND\<close>, so that the
  statement reads \<open>WHERE title ILIKE $1 AND salary >= $2\<close> before its ordering, with the
  values \<open>["%job1%", 1]\<close>. Any non-empty title triggers the substring predicate, which
  is then the first one and binds the raw text between two \<open>%\<close>.
\<close>

theorem Job_findAll_title_minSalary:
  assumes "ToNumber ''1'' = Finite 1"
  shows
    "Job_filters ToNumber [''title'' \<mapsto> ''job1'', ''minSalary'' \<mapsto> ''1''] =
       ([JStr ''%job1%'', JNum (Finite 1)], [''title ILIKE $1 '', ''salary >= $2 '']) \<and>
     Job_queryString (Job_filters ToNumber [''title'' \<mapsto> ''job1'', ''minSalary'' \<mapsto> ''1'']) =
       ''WHERE title ILIKE $1 AND salary >= $2  ORDER BY title'' \<and>
     (\<forall>data title.
        data ''title'' = Some title \<and> title \<noteq> [] \<longrightarrow>
          (\<exists>vs fs. Job_filters ToNumber data =
             (JStr (''%'' @ title @ ''%'') # vs, ''title ILIKE $1 '' # fs)))"
proof -
  have a: "Job_filters ToNumber [''title'' \<mapsto> ''job1'', ''minSalary'' \<mapsto> ''1''] =
       ([JStr ''%job1%'', JNum (Finite 1)], [''title ILIKE $1 '', ''salary >= $2 ''])"
    using assms by (simp add: Job_filters_def decimal_123)
  have b: "\<exists>vs fs. Job_filters ToNumber data =
             (JStr (''%'' @ title @ ''%'') # vs, ''title ILIKE $1 '' # fs)"
    if "data ''title'' = Some title" "title \<noteq> []" for data title
    using that by (simp add: Job_filters_def Let_def push_predicate_eq decimal_123 split: option.splits)
  show ?thesis
    using a b by (simp add: Job_queryString_def)
qed

theorem Job_findAll_title_minSalary_witness:
  "DecimalToNumber ''1'' = Finite 1 \<and>
   Job_filters DecimalToNumber [''title'' \<mapsto> ''job1'', ''minSalary'' \<mapsto> ''1''] =
       ([JStr ''%job1%'', JNum (Finite 1)], [''title ILIKE $1 '', ''salary >= $2 '']) \<and>
   [''title'' \<mapsto> ''Job''] ''title'' = Some ''Job'' \<and> ''Job'' \<noteq> [] \<and>
   (\<exists>vs fs. Job_filters DecimalToNumber [''title'' \<mapsto> ''Job''] =
             (JStr ''%Job%'' # vs, ''title ILIKE $1 '' # fs))"
proof -
  have h: "DecimalToNumber ''1'' = Finite 1"
    by (simp add: DecimalToNumber_def digit_value_def)
  note t = Job_findAll_title_minSalary [of DecimalToNumber, OF h]
  from t have g: "\<forall>data title.
        data ''title'' = Some title \<and> title \<noteq> [] \<longrightarrow>
          (\<exists>vs fs. Job_filters DecimalToNumber data =
             (JStr (''%'' @ title @ ''%'') # vs, ''title ILIKE $1 '' # fs))"
    by blast
  have "\<exists>vs fs. Job_filters DecimalToNumber [''title'' \<mapsto> ''Job''] =
             (JStr (''%'' @ ''Job'' @ ''%'') # vs, ''title ILIKE $1 '' # fs)"
    using g [rule_format, of "[''title'' \<mapsto> ''Job'']" "''Job''"] by simp
  then show ?thesis using h t by simp
qed

text \<open>
  C6. A numeric filter whose text does not convert to an integer is left out: the filters
  composed are those of the same input without that key, for \<open>minSalary\<close> of jobs and
  for \<open>minEmployees\<close> and \<open>maxEmployees\<close> of companies, and the composition has no
  failing branch. With \<open>+"nope"\<close> being \<open>NaN\<close>, the filter \<open>{minSalary: "nope"}\<close>
  alone gives no predicate, no value and no WHERE clause, and \<open>findAll\<close> returns the
  rows of the unfiltered query.
\<close>

theorem numeric_filter_skipped:
  "(\<forall>data v.
      data ''minSalary'' = Some v \<and> \<not> isInteger (ToNumber v) \<longrightarrow>
        Job_filters ToNumber data = Job_filters ToNumber (data(''minSalary'' := None))) \<and>
   (\<forall>data v.
      data ''minEmployees'' = Some v \<and> \<not> isInteger (ToNumber v) \<longrightarrow>
        Company_filters ToNumber data =
          Company_filters ToNumber (data(''minEmployees'' := None))) \<and>
   (\<forall>data v.
      data ''maxEmployees'' = Some v \<and> \<not> isInteger (ToNumber v) \<longrightarrow>
        Company_filters ToNumber data =
          Company_filters ToNumber (data(''maxEmployees'' := None))) \<and>
   (ToNumber ''nope'' = NaN \<longrightarrow>
      Job_filters ToNumber [''minSalary'' \<mapsto> ''nope''] = ([], []) \<and>
      Job_queryString (Job_filters ToNumber [''minSalary'' \<mapsto> ''nope'']) = '' ORDER BY title'' \<and>
      (\<forall>db. db (Job_baseQuery @ '' ORDER BY title'') [] \<noteq> [] \<longrightarrow>
         Job_findAll db ToNumber (Some [''minSalary'' \<mapsto> ''nope'']) =
           Inr (db (Job_baseQuery @ '' ORDER BY title'') [])))"
proof -
  have e: "Job_filters ToNumber [''minSalary'' \<mapsto> ''nope''] = ([], [])"
    if "ToNumber ''nope'' = NaN"
    using that by (simp add: Job_filters_def)
  show ?thesis
    using e Job_filters_minSalary_skip Company_filters_minEmployees_skip
      Company_filters_maxEmployees_skip
    by (simp add: Job_queryString_def Job_findAll_def)
qed

theorem numeric_filter_skipped_witness:
  "[''title'' \<mapsto> ''job'', ''minSalary'' \<mapsto> ''nope''] ''minSalary'' = Some ''nope'' \<and>
   \<not> isInteger (DecimalToNumber ''nope'') \<and>
   Job_filters DecimalToNumber [''title'' \<mapsto> ''job'', ''minSalary'' \<mapsto> ''nope''] =
     ([JStr ''%job%''], [''title ILIKE $1 '']) \<and>
   DecimalToNumber ''nope'' = NaN \<and>
   Job_filters DecimalToNumber [''minSalary'' \<mapsto> ''nope''] = ([], []) \<and>
   Job_findAll (\<lambda>q vs. if vs = [] then [''job1'', ''job2''] else [])
       DecimalToNumber (Some [''minSalary'' \<mapsto> ''nope'']) =
     Inr [''job1'', ''job2'']"
proof -
  have h: "DecimalToNumber ''nope'' = NaN"
    by (simp add: DecimalToNumber_def)
  note t = numeric_filter_skipped [of DecimalToNumber]
  from t have g: "\<forall>data v.
      data ''minSalary'' = Some v \<and> \<not> isInteger (DecimalToNumber v) \<longrightarrow>
        Job_filters DecimalToNumber data =
          Job_filters DecimalToNumber (data(''minSalary'' := None))"
    by (rule conjunct1)
  have a: "Job_filters DecimalToNumber [''title'' \<mapsto> ''job'', ''minSalary'' \<mapsto> ''nope''] =
      Job_filters DecimalToNumber
        ([''title'' \<mapsto> ''job'', ''minSalary'' \<mapsto> ''nope''](''minSalary'' := None))"
    using g [rule_format, of "[''title'' \<mapsto> ''job'', ''minSalary'' \<mapsto> ''nope'']" "''nope''"] h
    by simp
  have b: "Job_filters DecimalToNumber
        ([''title'' \<mapsto> ''job'', ''minSalary'' \<mapsto> ''nope''](''minSalary'' := None)) =
      ([JStr ''%job%''], [''title ILIKE $1 ''])"
    by (simp add: Job_filters_def decimal_123)
  from t h have d: "\<forall>db. db (Job_baseQuery @ '' ORDER BY title'') [] \<noteq> [] \<longrightarrow>
         Job_findAll db DecimalToNumber (Some [''minSalary'' \<mapsto> ''nope'']) =
           Inr (db (Job_baseQuery @ '' ORDER BY title'') [])"
    by blast
  have c: "Job_findAll (\<lambda>q vs. if vs = [] then [''job1'', ''job2''] else [])
       DecimalToNumber (Some [''minSalary'' \<mapsto> ''nope'']) =
     Inr [''job1'', ''job2'']"
    using d [rule_format, of "\<lambda>q vs. if vs = [] then [''job1'', ''job2''] else []"]
    by simp
  from t h have e: "Job_filters DecimalToNumber [''minSalary'' \<mapsto> ''nope''] = ([], [])"
    by blast
  show ?thesis using a b c e h by simp
qed

text \<open>
  C7. The \<open>hasEquity\<close> filter triggers exactly when the raw value is the text
  \<open>true\<close>. Triggered, it appends the value 0 and the predicate \<open>equity >= $n\<close>, with
  \<open>n\<close> the position of that value; for any other value, \<open>false\<close> included, and for
  no value, nothing is appended.
\<close>

theorem hasEquity_flag:
  "(data ''hasEquity'' = Some ''true'' \<longrightarrow>
      Job_filters ToNumber data =
        (fst (Job_filters ToNumber (data(''hasEquity'' := None))) @ [JNum (Finite 0)],
         snd (Job_filters ToNumber (data(''hasEquity'' := None))) @
           [''equity >= $'' @
            decimal (length (fst (Job_filters ToNumber (data(''hasEquity'' := None)))) + 1) @
            '' ''])) \<and>
   (data ''hasEquity'' \<noteq> Some ''true'' \<longrightarrow>
      Job_filters ToNumber data = Job_filters ToNumber (data(''hasEquity'' := None))) \<and>
   Job_filters ToNumber [''hasEquity'' \<mapsto> ''true''] = ([JNum (Finite 0)], [''equity >= $1 '']) \<and>
   Job_filters ToNumber [''hasEquity'' \<mapsto> ''false''] = ([], [])"
proof -
  have a: "Job_filters ToNumber [''hasEquity'' \<mapsto> ''true''] =
      ([JNum (Finite 0)], [''equity >= $1 ''])"
    by (simp add: Job_filters_def decimal_123)
  have b: "Job_filters ToNumber [''hasEquity'' \<mapsto> ''false''] = ([], [])"
    by (simp add: Job_filters_def)
  show ?thesis
    using a b Job_filters_hasEquity [of data ToNumber] Job_filters_no_hasEquity [of data ToNumber]
    by blast
qed

theorem hasEquity_flag_witness:
  "[''title'' \<mapsto> ''job'', ''hasEquity'' \<mapsto> ''true''] ''hasEquity'' = Some ''true'' \<and>
   Job_filters DecimalToNumber [''title'' \<mapsto> ''job'', ''hasEquity'' \<mapsto> ''true''] =
     ([JStr ''%job%'', JNum (Finite 0)], [''title ILIKE $1 '', ''equity >= $2 '']) \<and>
   [''title'' \<mapsto> ''job'', ''hasEquity'' \<mapsto> ''TRUE''] ''hasEquity'' \<noteq> Some ''true'' \<and>
   Job_filters DecimalToNumber [''title'' \<mapsto> ''job'', ''hasEquity'' \<mapsto> ''TRUE''] =
     ([JStr ''%job%''], [''title ILIKE $1 ''])"
proof -
  have r: "Job_filters DecimalToNumber [''title'' \<mapsto> ''job''] =
      ([JStr ''%job%''], [''title ILIKE $1 ''])"
    by (simp add: Job_filters_def decimal_123)
  have m1: "[''title'' \<mapsto> ''job'', ''hasEquity'' \<mapsto> ''true''](''hasEquity'' := None) =
      [''title'' \<mapsto> ''job'']"
    by (rule ext) simp
  have m2: "[''title'' \<mapsto> ''job'', ''hasEquity'' \<mapsto> ''TRUE''](''hasEquity'' := None) =
      [''title'' \<mapsto> ''job'']"
    by (rule ext) simp
  show ?thesis
    using hasEquity_flag [of "[''title'' \<mapsto> ''job'', ''hasEquity'' \<mapsto> ''true'']" DecimalToNumber]
      hasEquity_flag [of "[''title'' \<mapsto> ''job'', ''hasEquity'' \<mapsto> ''TRUE'']" DecimalToNumber]
    by (simp add: m1 m2 r decimal_123)
qed



section \<open>The shape of the clause text\<close>

text \<open>
  C3, as stated, fails for the filters: their column names are written without double
  quotes. The filter \<open>{title: "job1"}\<close> gives the clause \<open>title ILIKE $1\<close>, in which no
  double quote occurs.
\<close>

theorem filter_clause_unquoted_counterexample:
  "Job_filters DecimalToNumber [''title'' \<mapsto> ''job1''] =
     ([JStr ''%job1%''], [''title ILIKE $1 '']) \<and>
   Job_queryString (Job_filters DecimalToNumber [''title'' \<mapsto> ''job1'']) =
     ''WHERE title ILIKE $1  ORDER BY title'' \<and>
   CHR 0x22 \<notin> set (Job_queryString (Job_filters DecimalToNumber [''title'' \<mapsto> ''job1'']))"
  by (simp add: Job_filters_def Job_queryString_def decimal_123)

text \<open>
  C3, amended. The clause of \<open>sqlForPartialUpdate\<close> is the join of the fragments
  \<open>"<column>"=$<i + 1>\<close>, the column between double quotes, one per field in order; it
  is the same for any two records with the same field names, whatever their values. The
  predicates of \<open>Job.findAll\<close> and \<open>Company.findAll\<close> are a sub-sequence, in declared
  order, of three fixed texts with unquoted column names, each followed by its 1-based
  position in the emission order and a space, and there are as many values as
  predicates. So the indices count up from 1, and the values reach only the value array.
\<close>

theorem clause_text_shape:
  \<open>(dataToUpdate \<noteq> [] \<longrightarrow>
      sqlForPartialUpdate dataToUpdate jsToSql =
        Inr (join '', '' (cols (Object_keys dataToUpdate) jsToSql),
             Object_values dataToUpdate) \<and>
      length (cols (Object_keys dataToUpdate) jsToSql) = length dataToUpdate \<and>
      (\<forall>i < length dataToUpdate.
         cols (Object_keys dataToUpdate) jsToSql ! i =
           ''"'' @ column jsToSql (fst (dataToUpdate ! i)) @ ''"=$'' @ decimal (i + 1))) \<and>
   (\<forall>other.
      Object_keys other = Object_keys dataToUpdate \<longrightarrow>
        map_sum id fst (sqlForPartialUpdate other jsToSql) =
        map_sum id fst (sqlForPartialUpdate dataToUpdate jsToSql)) \<and>
   snd (Job_filters ToNumber data) \<in>
     (\<lambda>ts. map (\<lambda>(i, t). t @ decimal (i + 1) @ '' '') (enumerate 0 ts)) `
       set (subseqs [''title ILIKE $'', ''salary >= $'', ''equity >= $'']) \<and>
   length (fst (Job_filters ToNumber data)) = length (snd (Job_filters ToNumber data)) \<and>
   snd (Company_filters ToNumber data) \<in>
     (\<lambda>ts. map (\<lambda>(i, t). t @ decimal (i + 1) @ '' '') (enumerate 0 ts)) `
       set (subseqs [''name ILIKE $'', ''num_employees >= $'', ''num_employees <= $'']) \<and>
   length (fst (Company_filters ToNumber data)) =
     length (snd (Company_filters ToNumber data))\<close>
proof (intro conjI impI allI)
  assume "dataToUpdate \<noteq> []"
  then show "sqlForPartialUpdate dataToUpdate jsToSql =
        Inr (join '', '' (cols (Object_keys dataToUpdate) jsToSql),
             Object_values dataToUpdate)"
    by (rule sqlForPartialUpdate_nonempty)
next
  show "length (cols (Object_keys dataToUpdate) jsToSql) = length dataToUpdate"
    by (simp add: length_cols Object_keys_def)
next
  fix i assume "i < length dataToUpdate"
  then show \<open>cols (Object_keys dataToUpdate) jsToSql ! i =
           ''"'' @ column jsToSql (fst (dataToUpdate ! i)) @ ''"=$'' @ decimal (i + 1)\<close>
    by (simp add: nth_cols Object_keys_def)
next
  fix other :: "jsval object"
  assume "Object_keys other = Object_keys dataToUpdate"
  then show "map_sum id fst (sqlForPartialUpdate other jsToSql) =
        map_sum id fst (sqlForPartialUpdate dataToUpdate jsToSql)"
    by (rule setCols_keys_only)
next
  show "snd (Job_filters ToNumber data) \<in>
     (\<lambda>ts. map (\<lambda>(i, t). t @ decimal (i + 1) @ '' '') (enumerate 0 ts)) `
       set (subseqs [''title ILIKE $'', ''salary >= $'', ''equity >= $''])"
    by (rule Job_filters_numbered)
next
  show "length (fst (Job_filters ToNumber data)) = length (snd (Job_filters ToNumber data))"
    by (rule Job_filters_lengths)
next
  show "snd (Company_filters ToNumber data) \<in>
     (\<lambda>ts. map (\<lambda>(i, t). t @ decimal (i + 1) @ '' '') (enumerate 0 ts)) `
       set (subseqs [''name ILIKE $'', ''num_employees >= $'', ''num_employees <= $''])"
    by (rule Company_filters_numbered)
next
  show "length (fst (Company_filters ToNumber data)) =
     length (snd (Company_filters ToNumber data))"
    by (rule Company_filters_lengths)
qed

theorem clause_text_shape_witness:
  \<open>[(''logoUrl'', JStr ''x''), (''name'', JNull)] \<noteq> [] \<and>
   sqlForPartialUpdate [(''logoUrl'', JStr ''x''), (''name'', JNull)] Company_jsToSql =
     Inr (''"logo_url"=$1, "name"=$2'', [JStr ''x'', JNull]) \<and>
   (1::nat) < length [(''logoUrl'', JStr ''x''), (''name'', JNull)] \<and>
   cols (Object_keys [(''logoUrl'', JStr ''x''), (''name'', JNull)]) Company_jsToSql ! 1 =
     ''"name"=$2'' \<and>
   Object_keys [(''logoUrl'', JNum (Finite 5)), (''name'', JStr ''DROP TABLE'')] =
     Object_keys [(''logoUrl'', JStr ''x''), (''name'', JNull)] \<and>
   map_sum id fst
     (sqlForPartialUpdate [(''logoUrl'', JNum (Finite 5)), (''name'', JStr ''DROP TABLE'')]
        Company_jsToSql) =
   map_sum id fst
     (sqlForPartialUpdate [(''logoUrl'', JStr ''x''), (''name'', JNull)] Company_jsToSql) \<and>
   snd (Job_filters DecimalToNumber [''title'' \<mapsto> ''a'', ''hasEquity'' \<mapsto> ''true'']) =
     [''title ILIKE $1 '', ''equity >= $2 ''] \<and>
   snd (Company_filters DecimalToNumber [''maxEmployees'' \<mapsto> ''10'']) =
     [''num_employees <= $1 '']\<close>
proof -
  note t = clause_text_shape
    [of "[(''logoUrl'', JStr ''x''), (''name'', JNull)]" Company_jsToSql
        DecimalToNumber "[''title'' \<mapsto> ''a'', ''hasEquity'' \<mapsto> ''true'']"]
  have a: \<open>sqlForPartialUpdate [(''logoUrl'', JStr ''x''), (''name'', JNull)] Company_jsToSql =
     Inr (''"logo_url"=$1, "name"=$2'', [JStr ''x'', JNull])\<close>
    using t
    by (simp add: Object_keys_def Object_values_def cols_def column_def Object_prototype_def enumerate_eq_zip
        decimal.simps upt_rec Company_jsToSql_def)
  from t have b: \<open>\<forall>i < length [(''logoUrl'', JStr ''x''), (''name'', JNull :: jsval)].
         cols (Object_keys [(''logoUrl'', JStr ''x''), (''name'', JNull)]) Company_jsToSql ! i =
           ''"'' @ column Company_jsToSql
                    (fst ([(''logoUrl'', JStr ''x''), (''name'', JNull)] ! i)) @
           ''"=$'' @ decimal (i + 1)\<close>
    by blast
  have b1: \<open>cols (Object_keys [(''logoUrl'', JStr ''x''), (''name'', JNull)]) Company_jsToSql ! 1 =
     ''"name"=$2''\<close>
    using b [rule_format, of 1]
    by (simp add: column_def Object_prototype_def Company_jsToSql_def decimal.simps)
  from t have c: "\<forall>other.
      Object_keys other = Object_keys [(''logoUrl'', JStr ''x''), (''name'', JNull)] \<longrightarrow>
        map_sum id fst (sqlForPartialUpdate other Company_jsToSql) =
        map_sum id fst
          (sqlForPartialUpdate [(''logoUrl'', JStr ''x''), (''name'', JNull)] Company_jsToSql)"
    by blast
  have k: "Object_keys [(''logoUrl'', JNum (Finite 5)), (''name'', JStr ''DROP TABLE'')] =
     Object_keys [(''logoUrl'', JStr ''x''), (''name'', JNull :: jsval)]"
    by (simp add: Object_keys_def)
  have c1: "map_sum id fst
     (sqlForPartialUpdate [(''logoUrl'', JNum (Finite 5)), (''name'', JStr ''DROP TABLE'')]
        Company_jsToSql) =
   map_sum id fst
     (sqlForPartialUpdate [(''logoUrl'', JStr ''x''), (''name'', JNull)] Company_jsToSql)"
    using c [rule_format, OF k] .
  have j: "snd (Job_filters DecimalToNumber [''title'' \<mapsto> ''a'', ''hasEquity'' \<mapsto> ''true'']) =
     [''title ILIKE $1 '', ''equity >= $2 '']"
    by (simp add: Job_filters_def decimal_123)
  have m: "snd (Company_filters DecimalToNumber [''maxEmployees'' \<mapsto> ''10'']) =
     [''num_employees <= $1 '']"
    by (simp add: Company_filters_def decimal_123 DecimalToNumber_def digit_value_def)
  show ?thesis
    using a b1 k c1 j m by simp
qed

end
